theory Spec2Isabelle
  imports Main "HOL-Library.Multiset"
begin

section \<open>Storage backend selector and connection gateway (class \<open>DB\<close>)\<close>

text \<open>
  The application is one Python file, \<open>app.py\<close>. Its class \<open>DB\<close> chooses a backend when
  it is constructed, opens one connection lazily, rewrites the placeholder style of every
  statement for the embedded backend and hands the statement to the driver.

  \<open>self.db_type\<close> is one of the two strings \<open>"postgres"\<close> and \<open>"sqlite"\<close>.
\<close>

datatype backend = Postgres | Sqlite

text \<open>
  Exceptions are values. \<open>SecretNotFound\<close> is what Streamlit raises when \<open>st.secrets\<close> is
  touched and no secrets source exists; \<open>IntegrityError\<close> and \<open>OperationalError\<close> are the two
  DB-API exception classes the drivers raise on a statement; \<open>IndexError\<close> is pandas'
  out-of-range \<open>iloc\<close>.
\<close>

datatype exn = SecretNotFound | IntegrityError | OperationalError | IndexError

text \<open>
  \<open>os.environ\<close> is a map from names to strings. \<open>st.secrets\<close> is either absent (every
  access raises, case \<open>None\<close>) or a map.
\<close>

type_synonym environ = "string \<rightharpoonup> string"
type_synonym secrets = "(string \<rightharpoonup> string) option"

text \<open>Truth value of the result of \<open>os.getenv\<close>: \<open>None\<close> and the empty string are false.\<close>

definition truthy :: "string option \<Rightarrow> bool" where
  "truthy v = (case v of None \<Rightarrow> False | Some s \<Rightarrow> s \<noteq> [])"

datatype connection =
  PgConn (pg_host: "string option") (pg_dbname: "string option") (pg_user: "string option")
         (pg_password: "string option") (pg_port: "string option")
| SqliteConn (sqlite_path: string)

record DB =
  db_type :: backend
  conn :: "connection option"

text \<open>
  \<open>DB.__init__\<close> (lines 22-35): inside \<open>try\<close>, \<open>"db_host" in st.secrets\<close> decides; only when
  that test raises are the environment variables \<open>DB_HOST\<close> and \<open>DB_NAME\<close> consulted.
\<close>

definition DB_init :: "secrets \<Rightarrow> environ \<Rightarrow> DB" where
  "DB_init sec env =
     \<lparr> db_type =
         (case sec of
            Some s \<Rightarrow> (if s ''db_host'' \<noteq> None then Postgres else Sqlite)
          | None \<Rightarrow> (if truthy (env ''DB_HOST'') \<or> truthy (env ''DB_NAME'')
                     then Postgres else Sqlite)),
       conn = None \<rparr>"

text \<open>\<open>os.path.join\<close> on two components, POSIX flavour.\<close>

definition path_join :: "string \<Rightarrow> string \<Rightarrow> string" where
  "path_join a b =
     (if b \<noteq> [] \<and> hd b = CHR ''/'' then b
      else if a = [] \<or> last a = CHR ''/'' then a @ b
      else a @ ''/'' @ b)"

text \<open>\<open>st.secrets.get(key, default)\<close> on a secrets source that exists.\<close>

definition secrets_get :: "(string \<rightharpoonup> string) \<Rightarrow> string \<Rightarrow> string option \<Rightarrow> string option" where
  "secrets_get s k dflt = (case s k of Some v \<Rightarrow> Some v | None \<Rightarrow> dflt)"

text \<open>
  \<open>DB.get_conn\<close> (lines 37-55). The connection is created on the first call and kept in
  \<open>self._conn\<close>; the function returns it together with the updated object. Which branch
  runs depends on \<open>self.db_type\<close> alone. The arguments are the secrets, the environment and
  the working directory at the time of the call.
\<close>

definition get_conn :: "DB \<Rightarrow> secrets \<Rightarrow> environ \<Rightarrow> string \<Rightarrow> exn + connection \<times> DB" where
  "get_conn self sec env cwd =
     (case conn self of
        Some c \<Rightarrow> Inr (c, self)
      | None \<Rightarrow>
          (case db_type self of
             Postgres \<Rightarrow>
               (case sec of
                  None \<Rightarrow> Inl SecretNotFound
                | Some s \<Rightarrow>
                    (let c = PgConn (secrets_get s ''db_host'' (env ''DB_HOST''))
                                    (secrets_get s ''db_name'' (env ''DB_NAME''))
                                    (secrets_get s ''db_user'' (env ''DB_USER''))
                                    (secrets_get s ''db_pass'' (env ''DB_PASS''))
                                    (secrets_get s ''db_port''
                                       (case env ''DB_PORT'' of None \<Rightarrow> Some ''5432''
                                                              | Some p \<Rightarrow> Some p))
                     in Inr (c, self\<lparr>conn := Some c\<rparr>)))
           | Sqlite \<Rightarrow>
               (let c = SqliteConn (path_join cwd ''local_food.db'')
                in Inr (c, self\<lparr>conn := Some c\<rparr>))))"

subsection \<open>Placeholder adaptation\<close>

text \<open>
  Python's \<open>str.replace(old, new)\<close>: scan from the left, replace each occurrence of \<open>old\<close>
  and continue after it. With an empty \<open>old\<close>, \<open>new\<close> is inserted before every character
  and at the end.
\<close>

function str_replace :: "string \<Rightarrow> string \<Rightarrow> string \<Rightarrow> string" where
  "str_replace old new [] = (if old = [] then new else [])"
| "str_replace old new (c # cs) =
     (if old = [] then new @ c # str_replace old new cs
      else if take (length old) (c # cs) = old
           then new @ str_replace old new (drop (length old) (c # cs))
      else c # str_replace old new cs)"
  by pat_completeness auto
termination
  by (relation "measure (\<lambda>(old, new, s). length s)") auto

text \<open>\<open>DB._adapt_sql\<close> (lines 57-61).\<close>

definition adapt_sql :: "DB \<Rightarrow> string \<Rightarrow> string" where
  "adapt_sql self sql =
     (if db_type self = Sqlite then str_replace ''%s'' ''?'' sql else sql)"

text \<open>\<open>pat\<close> occurs in \<open>s\<close>: some position of \<open>s\<close> starts a copy of \<open>pat\<close>.\<close>

fun occurs :: "string \<Rightarrow> string \<Rightarrow> bool" where
  "occurs pat [] = (pat = [])"
| "occurs pat (c # cs) = (take (length pat) (c # cs) = pat \<or> occurs pat cs)"

text \<open>
  \<open>DB.run_query\<close> (lines 63-68) and \<open>DB.run_execute\<close> (lines 70-77), over the driver calls
  they make: \<open>pd.read_sql_query(sql_exec, conn, params=params)\<close> for a read,
  \<open>cur.execute(sql_exec, params or ())\<close> followed by \<open>conn.commit()\<close> for a write. The
  driver functions are parameters; a driver call that raises returns \<open>Inl\<close>.
\<close>

definition run_query ::
  "DB \<Rightarrow> (string \<Rightarrow> 'c \<Rightarrow> 'p option \<Rightarrow> 'r) \<Rightarrow> 'c \<Rightarrow> string \<Rightarrow> 'p option \<Rightarrow> 'r" where
  "run_query self read_sql_query c sql params =
     (let sql_exec = adapt_sql self sql in read_sql_query sql_exec c params)"

definition run_execute ::
  "DB \<Rightarrow> (string \<Rightarrow> 'v list \<Rightarrow> 'c \<Rightarrow> exn + 'c) \<Rightarrow> ('c \<Rightarrow> exn + 'c) \<Rightarrow> 'c \<Rightarrow> string
     \<Rightarrow> 'v list option \<Rightarrow> exn + 'c" where
  "run_execute self execute commit c sql params =
     (let sql_exec = adapt_sql self sql in
      case execute sql_exec (case params of None \<Rightarrow> [] | Some ps \<Rightarrow> ps) c of
        Inl e \<Rightarrow> Inl e
      | Inr c' \<Rightarrow> commit c')"


section \<open>The database\<close>

text \<open>
  The four tables of \<open>DB.create_tables\<close> (lines 79-172). A column that may hold \<open>NULL\<close> is
  an \<open>option\<close>; the primary keys, \<open>name\<close>, \<open>food_name\<close> and \<open>expiry_date\<close> are \<open>NOT NULL\<close>.
  A date is the number of its day and a timestamp the number of its instant: the ISO
  strings the application stores are ordered as these numbers are. The field names are
  the column names, prefixed with the initial of the table.
\<close>

record provider =
  p_provider_id :: int
  p_name :: string
  p_type :: "string option"
  p_address :: "string option"
  p_city :: "string option"
  p_contact :: "string option"

record receiver =
  r_receiver_id :: int
  r_name :: string
  r_type :: "string option"
  r_city :: "string option"
  r_contact :: "string option"

record food_listing =
  f_food_id :: int
  f_food_name :: string
  f_quantity :: "int option"
  f_expiry_date :: int
  f_provider_id :: "int option"
  f_provider_type :: "string option"
  f_location :: "string option"
  f_food_type :: "string option"
  f_meal_type :: "string option"

record claim =
  c_claim_id :: int
  c_food_id :: "int option"
  c_receiver_id :: "int option"
  c_status :: "string option"
  c_timestamp :: "int option"

text \<open>
  A database state is the rows of the four tables, in insertion order, and the last value
  each key generator has issued (\<open>SERIAL\<close> sequences on the relational server, the
  \<open>sqlite_sequence\<close> entries of \<open>AUTOINCREMENT\<close> on the embedded store).
\<close>

record database =
  providers :: "provider list"
  receivers :: "receiver list"
  food_listings :: "food_listing list"
  claims :: "claim list"
  provider_seq :: int
  receiver_seq :: int
  food_seq :: int
  claim_seq :: int

text \<open>
  The outcome of a statement: the exception it raised or its value, and the database
  afterwards.
\<close>

type_synonym 'a outcome = "(exn + 'a) \<times> database"

text \<open>
  Key generation. A sequence of the relational server hands out its next value whatever
  the table holds; \<open>AUTOINCREMENT\<close> takes one more than the largest key that is or ever
  was in the table.
\<close>

definition fresh_id :: "backend \<Rightarrow> int \<Rightarrow> int list \<Rightarrow> int" where
  "fresh_id b seq ids = (case b of Postgres \<Rightarrow> seq + 1 | Sqlite \<Rightarrow> fold max ids seq + 1)"

text \<open>
  The status values of a claim, as the two selection boxes and the literals of the
  application have them.
\<close>

datatype status_choice = Pending | Completed | Cancelled

fun status_text :: "status_choice \<Rightarrow> string" where
  "status_text Pending = ''Pending''"
| "status_text Completed = ''Completed''"
| "status_text Cancelled = ''Cancelled''"

subsection \<open>Write statements\<close>

text \<open>
  Each function below is one statement of the application run on a database state under
  the schema of \<open>create_tables\<close>. A constraint that fails raises \<open>IntegrityError\<close> and
  leaves the table as it was. On the relational server the sequence has advanced by then,
  and a key that is already in the table is a uniqueness violation. Foreign keys are
  declared in both schemas; the embedded store enforces them only when asked to by a
  pragma, which the application never issues.

  \<open>INSERT INTO providers (name, type, address, city, contact) VALUES (%s,%s,%s,%s,%s)\<close>
\<close>

definition insert_provider ::
  "backend \<Rightarrow> string option \<Rightarrow> string option \<Rightarrow> string option \<Rightarrow> string option
     \<Rightarrow> string option \<Rightarrow> database \<Rightarrow> unit outcome" where
  "insert_provider b name type address city contact db =
     (let ids = map p_provider_id (providers db);
          k = fresh_id b (provider_seq db) ids;
          failed = (if b = Postgres then db\<lparr>provider_seq := k\<rparr> else db)
      in case name of
           None \<Rightarrow> (Inl IntegrityError, failed)
         | Some n \<Rightarrow>
             if k \<in> set ids then (Inl IntegrityError, failed)
             else (Inr (),
                   db\<lparr>providers := providers db @
                        [\<lparr>p_provider_id = k, p_name = n, p_type = type, p_address = address,
                          p_city = city, p_contact = contact\<rparr>],
                      provider_seq := k\<rparr>))"

text \<open>\<open>INSERT INTO receivers (name, type, city, contact) VALUES (%s,%s,%s,%s)\<close>\<close>

definition insert_receiver ::
  "backend \<Rightarrow> string option \<Rightarrow> string option \<Rightarrow> string option \<Rightarrow> string option
     \<Rightarrow> database \<Rightarrow> unit outcome" where
  "insert_receiver b name type city contact db =
     (let ids = map r_receiver_id (receivers db);
          k = fresh_id b (receiver_seq db) ids;
          failed = (if b = Postgres then db\<lparr>receiver_seq := k\<rparr> else db)
      in case name of
           None \<Rightarrow> (Inl IntegrityError, failed)
         | Some n \<Rightarrow>
             if k \<in> set ids then (Inl IntegrityError, failed)
             else (Inr (),
                   db\<lparr>receivers := receivers db @
                        [\<lparr>r_receiver_id = k, r_name = n, r_type = type, r_city = city,
                          r_contact = contact\<rparr>],
                      receiver_seq := k\<rparr>))"

text \<open>
  \<open>INSERT INTO food_listings (food_name, quantity, expiry_date, provider_id, provider_type,
  location, food_type, meal_type) VALUES (%s,%s,%s,%s,%s,%s,%s,%s)\<close>, under
  \<open>food_name TEXT NOT NULL\<close>, \<open>quantity ... CHECK (quantity > 0)\<close>, \<open>expiry_date DATE NOT NULL\<close>
  and \<open>FOREIGN KEY (provider_id) REFERENCES providers(provider_id)\<close>. A \<open>CHECK\<close> rejects a
  row only when its condition is false; on a \<open>NULL\<close> quantity it is unknown and the row
  passes.
\<close>

definition quantity_check :: "int option \<Rightarrow> bool" where
  "quantity_check q = (case q of None \<Rightarrow> True | Some n \<Rightarrow> n > 0)"

definition references :: "backend \<Rightarrow> int option \<Rightarrow> int list \<Rightarrow> bool" where
  "references b fk keys =
     (case b of Sqlite \<Rightarrow> True
              | Postgres \<Rightarrow> (case fk of None \<Rightarrow> True | Some k \<Rightarrow> k \<in> set keys))"

definition insert_food_listing ::
  "backend \<Rightarrow> string option \<Rightarrow> int option \<Rightarrow> int option \<Rightarrow> int option \<Rightarrow> string option
     \<Rightarrow> string option \<Rightarrow> string option \<Rightarrow> string option \<Rightarrow> database \<Rightarrow> unit outcome" where
  "insert_food_listing b food_name quantity expiry_date provider_id provider_type location
       food_type meal_type db =
     (let ids = map f_food_id (food_listings db);
          k = fresh_id b (food_seq db) ids;
          failed = (if b = Postgres then db\<lparr>food_seq := k\<rparr> else db)
      in case (food_name, expiry_date) of
           (Some n, Some d) \<Rightarrow>
             if quantity_check quantity
                \<and> references b provider_id (map p_provider_id (providers db))
                \<and> k \<notin> set ids
             then (Inr (),
                   db\<lparr>food_listings := food_listings db @
                        [\<lparr>f_food_id = k, f_food_name = n, f_quantity = quantity,
                          f_expiry_date = d, f_provider_id = provider_id,
                          f_provider_type = provider_type, f_location = location,
                          f_food_type = food_type, f_meal_type = meal_type\<rparr>],
                      food_seq := k\<rparr>)
             else (Inl IntegrityError, failed)
         | _ \<Rightarrow> (Inl IntegrityError, failed))"

text \<open>
  \<open>INSERT INTO claims (food_id, receiver_id, status, timestamp) VALUES (%s,%s,%s,%s)\<close> and
  \<open>INSERT INTO claims (food_id, receiver_id, status) VALUES (%s,%s,%s);\<close>. The second
  leaves \<open>timestamp\<close> to its default \<open>CURRENT_TIMESTAMP\<close>, so both store an instant.
\<close>

definition insert_claim ::
  "backend \<Rightarrow> int option \<Rightarrow> int option \<Rightarrow> status_choice \<Rightarrow> int \<Rightarrow> database \<Rightarrow> unit outcome" where
  "insert_claim b food_id receiver_id status timestamp db =
     (let ids = map c_claim_id (claims db);
          k = fresh_id b (claim_seq db) ids;
          failed = (if b = Postgres then db\<lparr>claim_seq := k\<rparr> else db)
      in if references b food_id (map f_food_id (food_listings db))
            \<and> references b receiver_id (map r_receiver_id (receivers db))
            \<and> k \<notin> set ids
         then (Inr (),
               db\<lparr>claims := claims db @
                    [\<lparr>c_claim_id = k, c_food_id = food_id, c_receiver_id = receiver_id,
                      c_status = Some (status_text status), c_timestamp = Some timestamp\<rparr>],
                  claim_seq := k\<rparr>)
         else (Inl IntegrityError, failed))"

text \<open>
  \<open>UPDATE claims SET status = %s WHERE claim_id = %s;\<close> rewrites the status of every row
  with that key. A statement that matches no row is not an error.
\<close>

definition update_claim_status :: "status_choice \<Rightarrow> int \<Rightarrow> database \<Rightarrow> unit outcome" where
  "update_claim_status new_status cid db =
     (Inr (),
      db\<lparr>claims := map (\<lambda>c. if c_claim_id c = cid
                              then c\<lparr>c_status := Some (status_text new_status)\<rparr> else c)
                        (claims db)\<rparr>)"

text \<open>
  \<open>run_execute\<close> on one of these statements. The driver may raise for a reason that is not
  in the rows: a lost connection, a locked or read-only file, a missing privilege. That
  exception, when there is one, is the argument \<open>fault\<close>; the statement then has no
  effect. Otherwise the statement runs and \<open>conn.commit()\<close> keeps what it did.
\<close>

definition exec_write :: "exn option \<Rightarrow> (database \<Rightarrow> unit outcome) \<Rightarrow> database \<Rightarrow> unit outcome" where
  "exec_write fault stmt db = (case fault of Some e \<Rightarrow> (Inl e, db) | None \<Rightarrow> stmt db)"

text \<open>Statements issued one after the other; an exception ends the sequence.\<close>

fun exec_all :: "exn option \<Rightarrow> (database \<Rightarrow> unit outcome) list \<Rightarrow> database \<Rightarrow> unit outcome" where
  "exec_all fault [] db = (Inr (), db)"
| "exec_all fault (stmt # rest) db =
     (case exec_write fault stmt db of
        (Inl e, db') \<Rightarrow> (Inl e, db')
      | (Inr _, db') \<Rightarrow> exec_all fault rest db')"


subsection \<open>Query results\<close>

text \<open>
  \<open>run_query\<close> returns a pandas \<open>DataFrame\<close>: named columns and rows of cells, of whatever
  type the query yields. The result of a \<open>SELECT\<close> has at least one column and every row has
  one cell for each column.
\<close>

record 'v dataframe =
  df_columns :: "string list"
  df_rows :: "'v list list"


text \<open>\<open>DataFrame.empty\<close> is true when either axis has length 0.\<close>

definition df_empty :: "'v dataframe \<Rightarrow> bool" where
  "df_empty d = (df_rows d = [] \<or> df_columns d = [])"

text \<open>\<open>df.iloc[i, j]\<close> for indices that are not negative; out of range it raises.\<close>

definition iloc :: "'v dataframe \<Rightarrow> nat \<Rightarrow> nat \<Rightarrow> exn + 'v" where
  "iloc d i j =
     (if i < length (df_rows d) \<and> j < length (df_columns d) \<and> j < length (df_rows d ! i)
      then Inr (df_rows d ! i ! j) else Inl IndexError)"

text \<open>
  \<open>safe_scalar\<close> (lines 215-219) returns the Python integer \<open>0\<close>, here \<open>Py_zero\<close>, or a cell of
  the frame. The argument \<open>None\<close> of the source is \<open>None\<close> here.
\<close>

datatype 'v scalar = Py_zero | Cell 'v

definition safe_scalar :: "'v dataframe option \<Rightarrow> exn + 'v scalar" where
  "safe_scalar df =
     (case df of
        None \<Rightarrow> Inr Py_zero
      | Some d \<Rightarrow>
          if df_empty d then Inr Py_zero
          else (case iloc d 0 0 of Inl e \<Rightarrow> Inl e | Inr v \<Rightarrow> Inr (Cell v)))"

text \<open>
  The aggregates of the application, \<open>COUNT(*)\<close> and \<open>COALESCE(SUM(quantity),0)\<close>, yield an
  integer and never \<open>NULL\<close>: their frames have integer cells, one row and one column.
\<close>

definition scalar_frame :: "string \<Rightarrow> int \<Rightarrow> int dataframe" where
  "scalar_frame col v = \<lparr>df_columns = [col], df_rows = [[v]]\<rparr>"

definition count_rows :: "'a list \<Rightarrow> int" where
  "count_rows xs = int (length xs)"

text \<open>Python's \<open>int(v)\<close> on what \<open>safe_scalar\<close> returns for such a frame.\<close>

definition int_of_scalar :: "int scalar \<Rightarrow> int" where
  "int_of_scalar v = (case v of Py_zero \<Rightarrow> 0 | Cell n \<Rightarrow> n)"

subsection \<open>Sample data seeder\<close>

text \<open>
  The database right after \<open>create_tables\<close> on a new store: four empty tables, no key
  issued yet.
\<close>

definition empty_db :: database where
  "empty_db =
     \<lparr>providers = [], receivers = [], food_listings = [], claims = [],
      provider_seq = 0, receiver_seq = 0, food_seq = 0, claim_seq = 0\<rparr>"

text \<open>
  The eight writes of \<open>DB.insert_sample_data\<close> (lines 180-201), in the order of the source.
  \<open>today\<close> is \<open>date.today()\<close>; \<open>now1\<close> and \<open>now2\<close> are the two readings of \<open>datetime.now()\<close>.
\<close>

definition sample_writes :: "backend \<Rightarrow> int \<Rightarrow> int \<Rightarrow> int \<Rightarrow> (database \<Rightarrow> unit outcome) list" where
  "sample_writes b today now1 now2 =
     (let ed1 = today + 3;
          ed2 = today + 1
      in [insert_provider b (Some ''FreshBites Restaurant'') (Some ''Restaurant'')
            (Some ''123 Market Street'') (Some ''Mumbai'') (Some ''+91-9876543210''),
          insert_provider b (Some ''Happy Meals'') (Some ''Caterer'')
            (Some ''45 Food Plaza'') (Some ''Delhi'') (Some ''+91-9876501234''),
          insert_receiver b (Some ''Helping Hands NGO'') (Some ''NGO'')
            (Some ''Mumbai'') (Some ''9988776655''),
          insert_receiver b (Some ''Care Kitchen'') (Some ''Community Kitchen'')
            (Some ''Delhi'') (Some ''8877665544''),
          insert_food_listing b (Some ''Vegetable Curry'') (Some 20) (Some ed1)
            (Some 1) (Some ''Restaurant'') (Some ''Mumbai'') (Some ''Vegetarian'')
            (Some ''Lunch''),
          insert_food_listing b (Some ''Chicken Biryani'') (Some 15) (Some ed2)
            (Some 2) (Some ''Caterer'') (Some ''Delhi'') (Some ''Non-Vegetarian'')
            (Some ''Dinner''),
          insert_claim b (Some 1) (Some 1) Completed now1,
          insert_claim b (Some 2) (Some 2) Pending now2])"

text \<open>
  \<open>DB.insert_sample_data\<close> (lines 174-202): the count of \<open>providers\<close> is read first, and a
  count above 0 ends the call. The result is the message returned, or the exception that
  ended the call, and the database the call leaves behind: each statement is committed
  on its own.
\<close>

definition insert_sample_data ::
  "DB \<Rightarrow> exn option \<Rightarrow> int \<Rightarrow> int \<Rightarrow> int \<Rightarrow> database \<Rightarrow> string outcome" where
  "insert_sample_data self fault today now1 now2 db =
     (let dfp = scalar_frame ''cnt'' (count_rows (providers db)) in
      case iloc dfp 0 0 of
        Inl e \<Rightarrow> (Inl e, db)
      | Inr n \<Rightarrow>
          (if n > 0 then (Inr ''Sample data already present.'', db)
           else
             (case exec_all fault (sample_writes (db_type self) today now1 now2) db of
                (Inl e, db') \<Rightarrow> (Inl e, db')
              | (Inr _, db') \<Rightarrow> (Inr ''Sample data inserted.'', db'))))"

section \<open>Pages\<close>

subsection \<open>Overview\<close>

text \<open>
  The six scalars of the Overview page (lines 234-247), each \<open>safe_scalar\<close> of a query.
  \<open>CURRENT_DATE\<close> is \<open>today\<close>. \<open>SUM\<close> skips \<open>NULL\<close> quantities and \<open>COALESCE\<close> turns the sum of
  no rows into 0.
\<close>

definition active :: "int \<Rightarrow> food_listing list \<Rightarrow> food_listing list" where
  "active today rows = filter (\<lambda>r. today \<le> f_expiry_date r) rows"

definition sum_quantity :: "food_listing list \<Rightarrow> int" where
  "sum_quantity rows = sum_list (map (\<lambda>r. case f_quantity r of None \<Rightarrow> 0 | Some q \<Rightarrow> q) rows)"

definition q_total_listings :: "int \<Rightarrow> database \<Rightarrow> int dataframe" where
  "q_total_listings today db = scalar_frame ''count'' (count_rows (active today (food_listings db)))"

definition q_total_qty :: "int \<Rightarrow> database \<Rightarrow> int dataframe" where
  "q_total_qty today db = scalar_frame ''coalesce'' (sum_quantity (active today (food_listings db)))"

definition q_completed :: "database \<Rightarrow> int dataframe" where
  "q_completed db =
     scalar_frame ''count'' (count_rows (filter (\<lambda>c. c_status c = Some ''Completed'') (claims db)))"

definition q_total_claims :: "database \<Rightarrow> int dataframe" where
  "q_total_claims db = scalar_frame ''count'' (count_rows (claims db))"

definition q_providers_count :: "database \<Rightarrow> int dataframe" where
  "q_providers_count db = scalar_frame ''count'' (count_rows (providers db))"

definition q_receivers_count :: "database \<Rightarrow> int dataframe" where
  "q_receivers_count db = scalar_frame ''count'' (count_rows (receivers db))"

text \<open>
  The text of the metric "Claims Completed" (line 252). \<open>Rounded_percent c t\<close> stands for
  \<open>f"{round((c / t * 100), 2)}%"\<close>, which Python computes in binary floating point; it is
  kept as a term and not evaluated. \<open>Literal\<close> is a string written in the source.
\<close>

datatype percent_text = Literal string | Rounded_percent int int

definition pct_completed :: "int scalar \<Rightarrow> int scalar \<Rightarrow> percent_text" where
  "pct_completed completed total_claims =
     (if int_of_scalar total_claims \<noteq> 0
      then Rounded_percent (int_of_scalar completed) (int_of_scalar total_claims)
      else Literal ''0%'')"

record overview_metrics =
  active_listings :: int
  total_quantity :: int
  claims_completed :: percent_text
  providers_count :: "int scalar"
  receivers_count :: "int scalar"

definition bind_exn :: "exn + 'a \<Rightarrow> ('a \<Rightarrow> exn + 'b) \<Rightarrow> exn + 'b" where
  "bind_exn r f = (case r of Inl e \<Rightarrow> Inl e | Inr v \<Rightarrow> f v)"

definition overview :: "int \<Rightarrow> database \<Rightarrow> exn + overview_metrics" where
  "overview today db =
     bind_exn (safe_scalar (Some (q_total_listings today db))) (\<lambda>total_listings.
     bind_exn (safe_scalar (Some (q_total_qty today db))) (\<lambda>total_qty.
     bind_exn (safe_scalar (Some (q_completed db))) (\<lambda>completed.
     bind_exn (safe_scalar (Some (q_total_claims db))) (\<lambda>total_claims.
     bind_exn (safe_scalar (Some (q_providers_count db))) (\<lambda>providers_count.
     bind_exn (safe_scalar (Some (q_receivers_count db))) (\<lambda>receivers_count.
       Inr \<lparr>active_listings = int_of_scalar total_listings,
            total_quantity = int_of_scalar total_qty,
            claims_completed = pct_completed completed total_claims,
            providers_count = providers_count, receivers_count = receivers_count\<rparr>))))))"

subsection \<open>Listings\<close>

text \<open>
  The query of the Listings page (lines 280-290) is built from a fixed head and one
  condition for each filter that is not \<open>"All"\<close>; each condition carries its parameter.
  An equality with a \<open>NULL\<close> column is not true, so such a row is left out. Rows come back
  in ascending order of \<open>expiry_date\<close>.
\<close>

datatype listing_cond = Not_expired | Location_is string | Food_type_is string

definition listings_where :: "string \<Rightarrow> string \<Rightarrow> listing_cond list" where
  "listings_where selected_loc selected_ft =
     [Not_expired]
     @ (if selected_loc \<noteq> ''All'' then [Location_is selected_loc] else [])
     @ (if selected_ft \<noteq> ''All'' then [Food_type_is selected_ft] else [])"

fun listing_holds :: "int \<Rightarrow> food_listing \<Rightarrow> listing_cond \<Rightarrow> bool" where
  "listing_holds today r Not_expired = (today \<le> f_expiry_date r)"
| "listing_holds today r (Location_is v) = (f_location r = Some v)"
| "listing_holds today r (Food_type_is v) = (f_food_type r = Some v)"

definition select_listings :: "int \<Rightarrow> listing_cond list \<Rightarrow> database \<Rightarrow> food_listing list" where
  "select_listings today conds db =
     sort_key f_expiry_date
       (filter (\<lambda>r. list_all (listing_holds today r) conds) (food_listings db))"

definition listings_page_query :: "int \<Rightarrow> string \<Rightarrow> string \<Rightarrow> database \<Rightarrow> food_listing list" where
  "listings_page_query today selected_loc selected_ft db =
     select_listings today (listings_where selected_loc selected_ft) db"

subsection \<open>Messages and form handlers\<close>

text \<open>
  What a form handler shows: \<open>st.success\<close>, \<open>st.error\<close> (with the exception it formats into
  the text) or \<open>st.warning\<close>. A handler ends either with a message, \<open>Inr\<close>, or with an
  exception that leaves it, \<open>Inl\<close>.
\<close>

datatype message = Success string | Error string exn | Warning string

text \<open>
  The claim form of the Listings page (lines 302-309). \<open>now\<close> is the \<open>CURRENT_TIMESTAMP\<close> the
  database fills in.
\<close>

definition claim_form :: "DB \<Rightarrow> exn option \<Rightarrow> int \<Rightarrow> int \<Rightarrow> int \<Rightarrow> database \<Rightarrow> message outcome" where
  "claim_form self fault food_choice receiver_id now db =
     (case exec_write fault
             (insert_claim (db_type self) (Some food_choice) (Some receiver_id) Pending now) db of
        (Inr _, db') \<Rightarrow>
          (Inr (Success ''Claim submitted (Pending). Admin/provider should update status after pickup.''),
           db')
      | (Inl e, db') \<Rightarrow> (Inr (Error ''Failed to submit claim: '' e), db'))"

text \<open>The form of the Providers page (lines 325-331).\<close>

definition add_provider ::
  "DB \<Rightarrow> exn option \<Rightarrow> string \<Rightarrow> string \<Rightarrow> string \<Rightarrow> string \<Rightarrow> string \<Rightarrow> database
     \<Rightarrow> message outcome" where
  "add_provider self fault pname ptype paddress pcity pcontact db =
     (if pname = [] then (Inr (Warning ''Name is required.''), db)
      else
        (case exec_write fault
                (insert_provider (db_type self) (Some pname) (Some ptype) (Some paddress)
                   (Some pcity) (Some pcontact)) db of
           (Inl e, db') \<Rightarrow> (Inl e, db')
         | (Inr _, db') \<Rightarrow> (Inr (Success ''Provider added. Refresh to see the list.''), db')))"

text \<open>The form of the Receivers page (lines 346-352).\<close>

definition add_receiver ::
  "DB \<Rightarrow> exn option \<Rightarrow> string \<Rightarrow> string \<Rightarrow> string \<Rightarrow> string \<Rightarrow> database \<Rightarrow> message outcome" where
  "add_receiver self fault rname rtype rcity rcontact db =
     (if rname = [] then (Inr (Warning ''Name is required.''), db)
      else
        (case exec_write fault
                (insert_receiver (db_type self) (Some rname) (Some rtype) (Some rcity)
                   (Some rcontact)) db of
           (Inl e, db') \<Rightarrow> (Inl e, db')
         | (Inr _, db') \<Rightarrow> (Inr (Success ''Receiver added. Refresh to see the list.''), db')))"

subsection \<open>Claims\<close>

text \<open>
  The read query of the Claims page (lines 358-365): the rows whose status is the selected
  one, or all rows for \<open>"All"\<close>, by descending timestamp. The embedded store sorts \<open>NULL\<close>
  below every value and the relational server above.
\<close>

definition claims_where :: "string \<Rightarrow> claim \<Rightarrow> bool" where
  "claims_where status_filter c =
     (if status_filter \<noteq> ''All'' then c_status c = Some status_filter else True)"

definition by_timestamp_desc :: "backend \<Rightarrow> claim list \<Rightarrow> claim list" where
  "by_timestamp_desc b rows =
     (let dated = rev (sort_key (\<lambda>c. case c_timestamp c of Some t \<Rightarrow> t | None \<Rightarrow> 0)
                         (filter (\<lambda>c. c_timestamp c \<noteq> None) rows));
          undated = filter (\<lambda>c. c_timestamp c = None) rows
      in case b of Sqlite \<Rightarrow> dated @ undated | Postgres \<Rightarrow> undated @ dated)"

definition claims_page_query :: "DB \<Rightarrow> string \<Rightarrow> database \<Rightarrow> claim list" where
  "claims_page_query self status_filter db =
     by_timestamp_desc (db_type self) (filter (claims_where status_filter) (claims db))"

text \<open>
  The update form of the Claims page (lines 369-377). \<open>new_status\<close> is the choice of the
  selection box and \<open>cid\<close> the number entered.
\<close>

definition update_claim :: "DB \<Rightarrow> exn option \<Rightarrow> status_choice \<Rightarrow> int \<Rightarrow> database \<Rightarrow> message outcome" where
  "update_claim self fault new_status cid db =
     (case exec_write fault (update_claim_status new_status cid) db of
        (Inr _, db') \<Rightarrow> (Inr (Success ''Claim status updated.''), db')
      | (Inl e, db') \<Rightarrow> (Inr (Error ''Failed to update claim: '' e), db'))"


section \<open>Properties\<close>

subsection \<open>Placeholder adaptation\<close>

lemma occurs_iff: "occurs pat s \<longleftrightarrow> (\<exists>u v. s = u @ pat @ v)"
proof (induction s)
  case Nil
  then show ?case by auto
next
  case (Cons c cs)
  show ?case
  proof
    assume "occurs pat (c # cs)"
    then consider "take (length pat) (c # cs) = pat" | "occurs pat cs" by auto
    then show "\<exists>u v. c # cs = u @ pat @ v"
    proof cases
      case 1
      then have "c # cs = [] @ pat @ drop (length pat) (c # cs)"
        by (metis append_Nil append_take_drop_id)
      then show ?thesis by blast
    next
      case 2
      then obtain u v where "cs = u @ pat @ v" using Cons.IH by auto
      then have "c # cs = (c # u) @ pat @ v" by simp
      then show ?thesis by blast
    qed
  next
    assume "\<exists>u v. c # cs = u @ pat @ v"
    then obtain u v where uv: "c # cs = u @ pat @ v" by auto
    show "occurs pat (c # cs)"
    proof (cases u)
      case Nil
      then show ?thesis using uv by (metis append_Nil append_eq_conv_conj occurs.simps(2))
    next
      case (Cons d u')
      then have "cs = u' @ pat @ v" using uv by simp
      then show ?thesis using Cons.IH by auto
    qed
  qed
qed

lemma sr_cons2:
  "str_replace ''%s'' ''?'' (x # y # zs) =
     (if x = CHR ''%'' \<and> y = CHR ''s'' then CHR ''?'' # str_replace ''%s'' ''?'' zs
      else x # str_replace ''%s'' ''?'' (y # zs))"
  by simp

lemma sr_append:
  "str_replace ''%s'' ''?'' (a @ ''%s'' @ b) =
     str_replace ''%s'' ''?'' a @ ''?'' @ str_replace ''%s'' ''?'' b"
proof (induction a rule: induct_list012)
  case 1
  show ?case by simp
next
  case (2 x)
  show ?case by simp
next
  case (3 x y zs)
  then show ?case by (simp del: str_replace.simps add: sr_cons2)
qed

lemma sr_id: "\<not> occurs ''%s'' s \<Longrightarrow> str_replace ''%s'' ''?'' s = s"
  by (induction s rule: induct_list012) auto

lemma sr_head:
  "\<exists>t. str_replace ''%s'' ''?'' (y # zs) = y # t \<or> str_replace ''%s'' ''?'' (y # zs) = CHR ''?'' # t"
  by (cases zs) auto

lemma sr_clean: "\<not> occurs ''%s'' (str_replace ''%s'' ''?'' s)"
proof (induction s rule: induct_list012)
  case 1
  show ?case by simp
next
  case (2 x)
  show ?case by simp
next
  case (3 x y zs)
  show ?case
  proof (cases "x = CHR ''%'' \<and> y = CHR ''s''")
    case True
    then show ?thesis using 3 by simp
  next
    case False
    obtain t where t: "str_replace ''%s'' ''?'' (y # zs) = y # t \<or> str_replace ''%s'' ''?'' (y # zs) = CHR ''?'' # t"
      using sr_head by blast
    have "str_replace ''%s'' ''?'' (x # y # zs) = x # str_replace ''%s'' ''?'' (y # zs)"
      using False by (simp only: sr_cons2 if_False)
    then show ?thesis using 3(2) t False by (auto simp del: str_replace.simps)
  qed
qed


text \<open>
  C7. On the embedded backend \<open>_adapt_sql\<close> replaces every occurrence of \<open>%s\<close> by \<open>?\<close>: the
  result of a text split at an occurrence is the results of the two parts around a \<open>?\<close>,
  a text without an occurrence is returned as it is, and no occurrence is left in the
  result. On the relational server the text is returned unchanged. Both \<open>run_query\<close> and
  \<open>run_execute\<close> hand the adapted text to the driver.
\<close>

theorem adapt_sql_placeholders:
  "(db_type self = Sqlite \<longrightarrow>
      adapt_sql self (a @ ''%s'' @ b) = adapt_sql self a @ ''?'' @ adapt_sql self b
      \<and> (\<not> occurs ''%s'' sql \<longrightarrow> adapt_sql self sql = sql)
      \<and> \<not> occurs ''%s'' (adapt_sql self sql))
   \<and> (db_type self = Postgres \<longrightarrow> adapt_sql self sql = sql)
   \<and> run_query self read_sql_query c sql params = read_sql_query (adapt_sql self sql) c params
   \<and> run_execute self execute commit c sql None
        = (case execute (adapt_sql self sql) [] c of Inl e \<Rightarrow> Inl e | Inr c' \<Rightarrow> commit c')
   \<and> run_execute self execute commit c sql (Some ps)
        = (case execute (adapt_sql self sql) ps c of Inl e \<Rightarrow> Inl e | Inr c' \<Rightarrow> commit c')"
proof -
  have 1: "db_type self = Sqlite \<Longrightarrow>
      adapt_sql self (a @ ''%s'' @ b) = adapt_sql self a @ ''?'' @ adapt_sql self b"
    using sr_append [of a b] by (simp add: adapt_sql_def del: str_replace.simps)
  have 2: "db_type self = Sqlite \<Longrightarrow> \<not> occurs ''%s'' sql \<Longrightarrow> adapt_sql self sql = sql"
    using sr_id [of sql] by (simp add: adapt_sql_def del: str_replace.simps)
  have 3: "db_type self = Sqlite \<Longrightarrow> \<not> occurs ''%s'' (adapt_sql self sql)"
    using sr_clean [of sql] by (simp add: adapt_sql_def del: str_replace.simps)
  have 4: "db_type self = Postgres \<Longrightarrow> adapt_sql self sql = sql"
    by (simp add: adapt_sql_def)
  have 5: "run_query self read_sql_query c sql params = read_sql_query (adapt_sql self sql) c params"
    by (simp add: run_query_def)
  have 6: "run_execute self execute commit c sql None
        = (case execute (adapt_sql self sql) [] c of Inl e \<Rightarrow> Inl e | Inr c' \<Rightarrow> commit c')"
    by (simp add: run_execute_def)
  have 7: "run_execute self execute commit c sql (Some ps)
        = (case execute (adapt_sql self sql) ps c of Inl e \<Rightarrow> Inl e | Inr c' \<Rightarrow> commit c')"
    by (simp add: run_execute_def)
  from 1 2 3 4 5 6 7 show ?thesis by blast
qed



theorem adapt_sql_placeholders_witness:
  "db_type \<lparr>db_type = Sqlite, conn = None\<rparr> = Sqlite
   \<and> \<not> occurs ''%s'' ''SELECT COUNT(*) FROM claims;''
   \<and> adapt_sql \<lparr>db_type = Sqlite, conn = None\<rparr> ''SELECT COUNT(*) FROM claims;''
        = ''SELECT COUNT(*) FROM claims;''
   \<and> adapt_sql \<lparr>db_type = Sqlite, conn = None\<rparr> (''status = '' @ ''%s'' @ '' WHERE claim_id = %s;'')
        = adapt_sql \<lparr>db_type = Sqlite, conn = None\<rparr> ''status = '' @ ''?''
          @ adapt_sql \<lparr>db_type = Sqlite, conn = None\<rparr> '' WHERE claim_id = %s;''
   \<and> db_type \<lparr>db_type = Postgres, conn = None\<rparr> = Postgres
   \<and> adapt_sql \<lparr>db_type = Postgres, conn = None\<rparr> ''status = %s'' = ''status = %s''"
proof -
  have lite: "adapt_sql \<lparr>db_type = Sqlite, conn = None\<rparr> ''SELECT COUNT(*) FROM claims;''
        = ''SELECT COUNT(*) FROM claims;''
   \<and> adapt_sql \<lparr>db_type = Sqlite, conn = None\<rparr> (''status = '' @ ''%s'' @ '' WHERE claim_id = %s;'')
        = adapt_sql \<lparr>db_type = Sqlite, conn = None\<rparr> ''status = '' @ ''?''
          @ adapt_sql \<lparr>db_type = Sqlite, conn = None\<rparr> '' WHERE claim_id = %s;''"
    using adapt_sql_placeholders [of "\<lparr>db_type = Sqlite, conn = None\<rparr>" "''status = ''"
      "'' WHERE claim_id = %s;''" "''SELECT COUNT(*) FROM claims;''", THEN conjunct1]
    by simp
  have pg: "adapt_sql \<lparr>db_type = Postgres, conn = None\<rparr> ''status = %s'' = ''status = %s''"
    using adapt_sql_placeholders [of "\<lparr>db_type = Postgres, conn = None\<rparr>" "[]" "[]"
      "''status = %s''", THEN conjunct2, THEN conjunct1]
    by simp
  show ?thesis using lite pg by simp
qed

subsection \<open>Backend selection\<close>

text \<open>
  C8. When the secrets hold none of the connection entries, or there are no secrets at
  all, and neither \<open>DB_HOST\<close> nor \<open>DB_NAME\<close> is set, the constructor chooses the embedded
  store and opens no connection. Whatever the secrets, the environment and the working
  directory \<open>cwd\<close> are when \<open>get_conn\<close> is called later, it opens the file \<open>local_food.db\<close>
  of \<open>cwd\<close>.
\<close>

theorem backend_selection_sqlite:
  assumes "\<forall>s. sec = Some s \<longrightarrow>
             s ''db_host'' = None \<and> s ''db_name'' = None \<and> s ''db_user'' = None
             \<and> s ''db_pass'' = None \<and> s ''db_port'' = None"
    and "env ''DB_HOST'' = None" and "env ''DB_NAME'' = None"
  shows "db_type (DB_init sec env) = Sqlite
         \<and> conn (DB_init sec env) = None
         \<and> get_conn (DB_init sec env) sec' env' cwd
              = Inr (SqliteConn (path_join cwd ''local_food.db''),
                     (DB_init sec env)\<lparr>conn := Some (SqliteConn (path_join cwd ''local_food.db''))\<rparr>)
         \<and> path_join cwd ''local_food.db''
              = (if cwd = [] \<or> last cwd = CHR ''/'' then cwd @ ''local_food.db''
                 else cwd @ ''/local_food.db'')"
proof -
  have t: "db_type (DB_init sec env) = Sqlite"
    using assms by (cases sec) (simp_all add: DB_init_def truthy_def)
  have c: "conn (DB_init sec env) = None" by (simp add: DB_init_def)
  have g: "get_conn (DB_init sec env) sec' env' cwd
              = Inr (SqliteConn (path_join cwd ''local_food.db''),
                     (DB_init sec env)\<lparr>conn := Some (SqliteConn (path_join cwd ''local_food.db''))\<rparr>)"
    using t c by (simp add: get_conn_def Let_def)
  have p: "path_join cwd ''local_food.db''
              = (if cwd = [] \<or> last cwd = CHR ''/'' then cwd @ ''local_food.db''
                 else cwd @ ''/local_food.db'')"
    by (simp add: path_join_def)
  show ?thesis using t c g p by blast
qed

theorem backend_selection_sqlite_witness:
  "(Map.empty :: environ) ''DB_HOST'' = None \<and> (Map.empty :: environ) ''DB_NAME'' = None
   \<and> db_type (DB_init (Some [''theme'' \<mapsto> ''dark'']) Map.empty) = Sqlite
   \<and> get_conn (DB_init (Some [''theme'' \<mapsto> ''dark'']) Map.empty)
        (Some [''db_host'' \<mapsto> ''db.example.org'']) [''DB_HOST'' \<mapsto> ''h''] ''/srv/app''
      = Inr (SqliteConn ''/srv/app/local_food.db'',
             \<lparr>db_type = Sqlite, conn = Some (SqliteConn ''/srv/app/local_food.db'')\<rparr>)"
proof -
  have a: "\<forall>s. Some [''theme'' \<mapsto> ''dark''] = Some s \<longrightarrow>
             s ''db_host'' = None \<and> s ''db_name'' = None \<and> s ''db_user'' = None
             \<and> s ''db_pass'' = None \<and> s ''db_port'' = None" by auto
  have e: "(Map.empty :: environ) ''DB_HOST'' = None" "(Map.empty :: environ) ''DB_NAME'' = None"
    by simp_all
  have d: "DB_init (Some [''theme'' \<mapsto> ''dark'']) Map.empty = \<lparr>db_type = Sqlite, conn = None\<rparr>"
    by (simp add: DB_init_def)
  show ?thesis
    using backend_selection_sqlite [OF a e, of "Some [''db_host'' \<mapsto> ''db.example.org'']"
        "[''DB_HOST'' \<mapsto> ''h'']" "''/srv/app''"] a e
    by (simp add: d)
qed



subsection \<open>Scalars of the Overview page\<close>



lemma safe_scalar_scalar_frame: "safe_scalar (Some (scalar_frame col n)) = Inr (Cell n)"
  by (simp add: safe_scalar_def scalar_frame_def df_empty_def iloc_def)

lemma overview_defined:
  "overview today db =
     Inr \<lparr>active_listings = count_rows (active today (food_listings db)),
          total_quantity = sum_quantity (active today (food_listings db)),
          claims_completed =
            pct_completed (Cell (count_rows (filter (\<lambda>c. c_status c = Some ''Completed'') (claims db))))
                          (Cell (count_rows (claims db))),
          providers_count = Cell (count_rows (providers db)),
          receivers_count = Cell (count_rows (receivers db))\<rparr>"
  by (simp add: overview_def bind_exn_def safe_scalar_scalar_frame q_total_listings_def
        q_total_qty_def q_completed_def q_total_claims_def q_providers_count_def
        q_receivers_count_def int_of_scalar_def)



subsection \<open>The quantity constraint\<close>

text \<open>
  C4. An insert into \<open>food_listings\<close> with a quantity of 0 or less fails, on either
  backend and whatever the other values are: with \<open>IntegrityError\<close> from the \<open>CHECK\<close>, or
  with the driver's own exception when the driver fails first. The table
  \<open>food_listings\<close> is as it was.
\<close>

theorem quantity_constraint:
  assumes "q \<le> 0"
  shows "fst (exec_write fault
                (insert_food_listing b food_name (Some q) expiry_date provider_id provider_type
                   location food_type meal_type) db)
           = Inl (case fault of Some e \<Rightarrow> e | None \<Rightarrow> IntegrityError)
         \<and> food_listings (snd (exec_write fault
                (insert_food_listing b food_name (Some q) expiry_date provider_id provider_type
                   location food_type meal_type) db))
           = food_listings db"
  using assms
  by (cases fault)
     (auto simp add: exec_write_def insert_food_listing_def quantity_check_def Let_def
           split: option.splits)

theorem quantity_constraint_witness:
  "(0 :: int) \<le> 0
   \<and> fst (exec_write None
            (insert_food_listing Sqlite (Some ''Rice'') (Some 0) (Some 20) None None None None None)
            \<lparr>providers = [], receivers = [], food_listings = [], claims = [],
              provider_seq = 0, receiver_seq = 0, food_seq = 0, claim_seq = 0\<rparr>)
       = Inl IntegrityError
   \<and> food_listings (snd (exec_write None
            (insert_food_listing Sqlite (Some ''Rice'') (Some 0) (Some 20) None None None None None)
            \<lparr>providers = [], receivers = [], food_listings = [], claims = [],
              provider_seq = 0, receiver_seq = 0, food_seq = 0, claim_seq = 0\<rparr>))
       = []"
proof -
  have h: "(0 :: int) \<le> 0" by simp
  show ?thesis
    using quantity_constraint [OF h, of None Sqlite "Some ''Rice''" "Some 20" None None None None None
        "\<lparr>providers = [], receivers = [], food_listings = [], claims = [],
              provider_seq = 0, receiver_seq = 0, food_seq = 0, claim_seq = 0\<rparr>"]
    by simp
qed

subsection \<open>Updating the status of a claim\<close>

lemma set_by_timestamp_desc: "set (by_timestamp_desc b rows) = set rows"
  by (cases b) (auto simp add: by_timestamp_desc_def Let_def)

lemma update_absent_rows:
  "cid \<notin> c_claim_id ` set rows \<Longrightarrow>
     map (\<lambda>c. if c_claim_id c = cid then c\<lparr>c_status := s\<rparr> else c) rows = rows"
  by (induction rows) auto

text \<open>
  C10. When no claim has the number entered, the update form of the Claims page changes
  nothing in the database and no exception leaves it; when the driver itself does not
  fail, the page reports "Claim status updated.".
\<close>

theorem update_missing_claim_noop:
  assumes "cid \<notin> c_claim_id ` set (claims db)"
  shows "update_claim self None new_status cid db = (Inr (Success ''Claim status updated.''), db)
         \<and> snd (update_claim self fault new_status cid db) = db
         \<and> (\<exists>m. fst (update_claim self fault new_status cid db) = Inr m)"
  using update_absent_rows [OF assms]
  by (cases fault) (simp_all add: update_claim_def exec_write_def update_claim_status_def)

theorem update_missing_claim_noop_witness:
  "(7 :: int) \<notin> c_claim_id ` set (claims
       \<lparr>providers = [], receivers = [], food_listings = [],
          claims = [\<lparr>c_claim_id = 1, c_food_id = Some 1, c_receiver_id = Some 1,
                     c_status = Some ''Pending'', c_timestamp = Some 5\<rparr>],
          provider_seq = 0, receiver_seq = 0, food_seq = 0, claim_seq = 1\<rparr>)
   \<and> update_claim \<lparr>db_type = Sqlite, conn = None\<rparr> None Completed 7
       \<lparr>providers = [], receivers = [], food_listings = [],
          claims = [\<lparr>c_claim_id = 1, c_food_id = Some 1, c_receiver_id = Some 1,
                     c_status = Some ''Pending'', c_timestamp = Some 5\<rparr>],
          provider_seq = 0, receiver_seq = 0, food_seq = 0, claim_seq = 1\<rparr>
     = (Inr (Success ''Claim status updated.''),
        \<lparr>providers = [], receivers = [], food_listings = [],
          claims = [\<lparr>c_claim_id = 1, c_food_id = Some 1, c_receiver_id = Some 1,
                     c_status = Some ''Pending'', c_timestamp = Some 5\<rparr>],
          provider_seq = 0, receiver_seq = 0, food_seq = 0, claim_seq = 1\<rparr>)"
proof -
  have h: "(7 :: int) \<notin> c_claim_id ` set (claims
       \<lparr>providers = [], receivers = [], food_listings = [],
          claims = [\<lparr>c_claim_id = 1, c_food_id = Some 1, c_receiver_id = Some 1,
                     c_status = Some ''Pending'', c_timestamp = Some 5\<rparr>],
          provider_seq = 0, receiver_seq = 0, food_seq = 0, claim_seq = 1\<rparr>)"
    by simp
  show ?thesis
    using update_missing_claim_noop [OF h, of "\<lparr>db_type = Sqlite, conn = None\<rparr>" Completed None] h
    by simp
qed

lemma updated_claims:
  "claims (snd (update_claim self None st cid db))
     = map (\<lambda>c. if c_claim_id c = cid then c\<lparr>c_status := Some (status_text st)\<rparr> else c) (claims db)"
  by (simp add: update_claim_def exec_write_def update_claim_status_def)

lemma updated_rows_status:
  assumes "c \<in> set (map (\<lambda>x. if c_claim_id x = cid then x\<lparr>c_status := s\<rparr> else x) rows)"
    and "c_claim_id c = cid"
  shows "c_status c = s"
proof -
  from assms(1) have "\<exists>x. x \<in> set rows
      \<and> c = (if c_claim_id x = cid then x\<lparr>c_status := s\<rparr> else x)"
    by auto
  then obtain x where x: "c = (if c_claim_id x = cid then x\<lparr>c_status := s\<rparr> else x)"
    by (elim exE conjE)
  show ?thesis
  proof (cases "c_claim_id x = cid")
    case True
    with x have "c = x\<lparr>c_status := s\<rparr>" by simp
    then show ?thesis by simp
  next
    case False
    with x have "c = x" by simp
    with False assms(2) show ?thesis by simp
  qed
qed

lemma updated_rows_member:
  assumes "r \<in> set rows" and "c_claim_id r = cid"
  shows "r\<lparr>c_status := s\<rparr>
           \<in> set (map (\<lambda>x. if c_claim_id x = cid then x\<lparr>c_status := s\<rparr> else x) rows)"
  unfolding set_map using assms by (intro image_eqI [where x = r]) simp_all

text \<open>
  C5. When a claim has the number entered, setting its status to Completed through the
  update form succeeds, and a read of the claims afterwards, through the query of the
  Claims page under the filter "All" or "Completed" as well as in the table itself,
  finds a row with that number and shows the status Completed on every such row.
\<close>

theorem status_update_read_after_write:
  assumes "cid \<in> c_claim_id ` set (claims db)"
  shows "fst (update_claim self None Completed cid db) = Inr (Success ''Claim status updated.'')
         \<and> (\<exists>c \<in> set (claims_page_query self ''All'' (snd (update_claim self None Completed cid db))).
               c_claim_id c = cid)
         \<and> (\<forall>c \<in> set (claims_page_query self ''All'' (snd (update_claim self None Completed cid db))).
               c_claim_id c = cid \<longrightarrow> c_status c = Some ''Completed'')
         \<and> (\<exists>c \<in> set (claims_page_query self ''Completed'' (snd (update_claim self None Completed cid db))).
               c_claim_id c = cid)
         \<and> (\<forall>c \<in> set (claims (snd (update_claim self None Completed cid db))).
               c_claim_id c = cid \<longrightarrow> c_status c = Some ''Completed'')"
proof -
  let ?db' = "snd (update_claim self None Completed cid db)"
  let ?s = "Some (status_text Completed)"
  have st: "?s = Some ''Completed''" by simp
  have ok: "fst (update_claim self None Completed cid db) = Inr (Success ''Claim status updated.'')"
    by (simp add: update_claim_def exec_write_def update_claim_status_def)
  have all: "\<And>c. c \<in> set (claims ?db') \<Longrightarrow> c_claim_id c = cid \<Longrightarrow> c_status c = Some ''Completed''"
    unfolding updated_claims st [symmetric] by (rule updated_rows_status)
  obtain r where r: "r \<in> set (claims db)" "c_claim_id r = cid" using assms by auto
  have mem: "r\<lparr>c_status := ?s\<rparr> \<in> set (claims ?db')"
    unfolding updated_claims by (rule updated_rows_member [OF r])
  have rid: "c_claim_id (r\<lparr>c_status := ?s\<rparr>) = cid" using r by simp
  have rst: "c_status (r\<lparr>c_status := ?s\<rparr>) = Some ''Completed''" by simp
  have sAll: "set (claims_page_query self ''All'' ?db') = set (claims ?db')"
    by (simp add: claims_page_query_def set_by_timestamp_desc claims_where_def)
  have sCompleted: "set (claims_page_query self ''Completed'' ?db')
      = {c \<in> set (claims ?db'). c_status c = Some ''Completed''}"
    by (simp add: claims_page_query_def set_by_timestamp_desc claims_where_def)
  have memC: "r\<lparr>c_status := ?s\<rparr> \<in> set (claims_page_query self ''Completed'' ?db')"
    unfolding sCompleted using mem rst by blast
  have memA: "r\<lparr>c_status := ?s\<rparr> \<in> set (claims_page_query self ''All'' ?db')"
    unfolding sAll using mem .
  have 2: "\<exists>c \<in> set (claims_page_query self ''All'' ?db'). c_claim_id c = cid"
    using memA rid by (rule bexI [rotated])
  have 3: "\<forall>c \<in> set (claims_page_query self ''All'' ?db'). c_claim_id c = cid \<longrightarrow> c_status c = Some ''Completed''"
    unfolding sAll using all by blast
  have 4: "\<exists>c \<in> set (claims_page_query self ''Completed'' ?db'). c_claim_id c = cid"
    using memC rid by (rule bexI [rotated])
  have 5: "\<forall>c \<in> set (claims ?db'). c_claim_id c = cid \<longrightarrow> c_status c = Some ''Completed''"
    using all by blast
  show ?thesis by (rule conjI ok 2 3 4 5)+
qed

theorem status_update_read_after_write_witness:
  "map c_status (claims_page_query \<lparr>db_type = Sqlite, conn = None\<rparr> ''All''
      (snd (update_claim \<lparr>db_type = Sqlite, conn = None\<rparr> None Completed 1
       \<lparr>providers = [], receivers = [], food_listings = [],
          claims = [\<lparr>c_claim_id = 1, c_food_id = Some 1, c_receiver_id = Some 1,
                     c_status = Some ''Pending'', c_timestamp = Some 5\<rparr>],
          provider_seq = 0, receiver_seq = 0, food_seq = 0, claim_seq = 1\<rparr>)))
     = [Some ''Completed'']
   \<and> fst (update_claim \<lparr>db_type = Sqlite, conn = None\<rparr> None Completed 1
       \<lparr>providers = [], receivers = [], food_listings = [],
          claims = [\<lparr>c_claim_id = 1, c_food_id = Some 1, c_receiver_id = Some 1,
                     c_status = Some ''Pending'', c_timestamp = Some 5\<rparr>],
          provider_seq = 0, receiver_seq = 0, food_seq = 0, claim_seq = 1\<rparr>)
     = Inr (Success ''Claim status updated.'')"
proof -
  have h: "(1 :: int) \<in> c_claim_id ` set (claims
       \<lparr>providers = [], receivers = [], food_listings = [],
          claims = [\<lparr>c_claim_id = 1, c_food_id = Some 1, c_receiver_id = Some 1,
                     c_status = Some ''Pending'', c_timestamp = Some 5\<rparr>],
          provider_seq = 0, receiver_seq = 0, food_seq = 0, claim_seq = 1\<rparr>)"
    by simp
  have q: "claims_page_query \<lparr>db_type = Sqlite, conn = None\<rparr> ''All''
      (snd (update_claim \<lparr>db_type = Sqlite, conn = None\<rparr> None Completed 1
       \<lparr>providers = [], receivers = [], food_listings = [],
          claims = [\<lparr>c_claim_id = 1, c_food_id = Some 1, c_receiver_id = Some 1,
                     c_status = Some ''Pending'', c_timestamp = Some 5\<rparr>],
          provider_seq = 0, receiver_seq = 0, food_seq = 0, claim_seq = 1\<rparr>))
     = [\<lparr>c_claim_id = 1, c_food_id = Some 1, c_receiver_id = Some 1,
                     c_status = Some ''Completed'', c_timestamp = Some 5\<rparr>]"
    by (simp add: claims_page_query_def update_claim_def exec_write_def update_claim_status_def
          by_timestamp_desc_def claims_where_def)
  show ?thesis
    using status_update_read_after_write [OF h, of "\<lparr>db_type = Sqlite, conn = None\<rparr>"]
    by (simp add: q)
qed

subsection \<open>Exceptions in the form handlers\<close>

text \<open>
  C6. The handlers of the claim form and of the status update catch an exception of the
  write and show it. The handlers of the Providers and Receivers forms call
  \<open>run_execute\<close> outside any \<open>try\<close>: when the driver raises on the insert, the exception
  leaves the handler.
\<close>

theorem unguarded_write_escapes:
  "add_provider self (Some OperationalError) ''Asha Foods'' ''Restaurant'' ''1 Main Road'' ''Pune'' ''123'' db
     = (Inl OperationalError, db)
   \<and> add_receiver self (Some OperationalError) ''Anna Trust'' ''NGO'' ''Pune'' ''456'' db
     = (Inl OperationalError, db)
   \<and> claim_form self (Some OperationalError) 1 1 now db
     = (Inr (Error ''Failed to submit claim: '' OperationalError), db)
   \<and> update_claim self (Some OperationalError) Completed 1 db
     = (Inr (Error ''Failed to update claim: '' OperationalError), db)"
  by (simp add: add_provider_def add_receiver_def claim_form_def update_claim_def exec_write_def)


subsection \<open>The query of the Listings page\<close>

lemma listings_conds:
  "list_all (listing_holds today r) (listings_where selected_loc selected_ft)
     \<longleftrightarrow> today \<le> f_expiry_date r
          \<and> (selected_loc = ''All'' \<or> f_location r = Some selected_loc)
          \<and> (selected_ft = ''All'' \<or> f_food_type r = Some selected_ft)"
  by (simp add: listings_where_def)

text \<open>
  C2, as stated, fails: the query also applies the food type filter. On the sample data,
  with the city "Mumbai" and the food type "Non-Vegetarian" selected, the page gets no
  row, although one listing of Mumbai has not expired.
\<close>

theorem listings_filter_counterexample:
  "''Mumbai'' \<noteq> ''All''
   \<and> listings_page_query 100 ''Mumbai'' ''Non-Vegetarian''
        (snd (insert_sample_data \<lparr>db_type = Sqlite, conn = None\<rparr> None 100 7 8 empty_db)) = []
   \<and> filter (\<lambda>r. f_location r = Some ''Mumbai'' \<and> 100 \<le> f_expiry_date r)
        (food_listings (snd (insert_sample_data \<lparr>db_type = Sqlite, conn = None\<rparr> None 100 7 8 empty_db)))
      = [\<lparr>f_food_id = 1, f_food_name = ''Vegetable Curry'', f_quantity = Some 20,
           f_expiry_date = 103, f_provider_id = Some 1, f_provider_type = Some ''Restaurant'',
           f_location = Some ''Mumbai'', f_food_type = Some ''Vegetarian'',
           f_meal_type = Some ''Lunch''\<rparr>]"
  by (simp add: listings_page_query_def select_listings_def listings_where_def
        insert_sample_data_def sample_writes_def empty_db_def scalar_frame_def count_rows_def
        iloc_def exec_write_def insert_provider_def insert_receiver_def insert_food_listing_def
        insert_claim_def fresh_id_def quantity_check_def references_def Let_def)

text \<open>
  C2, amended. For a selected city other than "All", the query of the Listings page
  returns exactly the rows of \<open>food_listings\<close> whose location is the selected city, whose
  expiry date is today or later and whose food type is the selected one when that
  selection is not "All"; the rows come in ascending order of expiry date.
\<close>

theorem listings_filter_correct:
  assumes "selected_loc \<noteq> ''All''"
  shows "mset (listings_page_query today selected_loc selected_ft db)
           = mset (filter (\<lambda>r. f_location r = Some selected_loc \<and> today \<le> f_expiry_date r
                               \<and> (selected_ft = ''All'' \<or> f_food_type r = Some selected_ft))
                          (food_listings db))
         \<and> sorted (map f_expiry_date (listings_page_query today selected_loc selected_ft db))"
proof -
  have c: "(\<lambda>r. list_all (listing_holds today r) (listings_where selected_loc selected_ft))
        = (\<lambda>r. f_location r = Some selected_loc \<and> today \<le> f_expiry_date r
                               \<and> (selected_ft = ''All'' \<or> f_food_type r = Some selected_ft))"
    using assms by (auto simp add: listings_conds fun_eq_iff)
  have m: "mset (listings_page_query today selected_loc selected_ft db)
           = mset (filter (\<lambda>r. f_location r = Some selected_loc \<and> today \<le> f_expiry_date r
                               \<and> (selected_ft = ''All'' \<or> f_food_type r = Some selected_ft))
                          (food_listings db))"
    unfolding listings_page_query_def select_listings_def c by (rule mset_sort)
  have s: "sorted (map f_expiry_date (listings_page_query today selected_loc selected_ft db))"
    unfolding listings_page_query_def select_listings_def by (rule sorted_sort_key)
  from m s show ?thesis by (rule conjI)
qed

theorem listings_filter_correct_witness:
  "''Mumbai'' \<noteq> ''All''
   \<and> mset (listings_page_query 100 ''Mumbai'' ''All''
        (snd (insert_sample_data \<lparr>db_type = Sqlite, conn = None\<rparr> None 100 7 8 empty_db)))
      = {#\<lparr>f_food_id = 1, f_food_name = ''Vegetable Curry'', f_quantity = Some 20,
           f_expiry_date = 103, f_provider_id = Some 1, f_provider_type = Some ''Restaurant'',
           f_location = Some ''Mumbai'', f_food_type = Some ''Vegetarian'',
           f_meal_type = Some ''Lunch''\<rparr>#}"
proof -
  have h: "''Mumbai'' \<noteq> ''All''" by simp
  have d: "food_listings (snd (insert_sample_data \<lparr>db_type = Sqlite, conn = None\<rparr> None 100 7 8 empty_db))
     = [\<lparr>f_food_id = 1, f_food_name = ''Vegetable Curry'', f_quantity = Some 20,
           f_expiry_date = 103, f_provider_id = Some 1, f_provider_type = Some ''Restaurant'',
           f_location = Some ''Mumbai'', f_food_type = Some ''Vegetarian'',
           f_meal_type = Some ''Lunch''\<rparr>,
        \<lparr>f_food_id = 2, f_food_name = ''Chicken Biryani'', f_quantity = Some 15,
           f_expiry_date = 101, f_provider_id = Some 2, f_provider_type = Some ''Caterer'',
           f_location = Some ''Delhi'', f_food_type = Some ''Non-Vegetarian'',
           f_meal_type = Some ''Dinner''\<rparr>]"
    by (simp add: insert_sample_data_def sample_writes_def empty_db_def scalar_frame_def count_rows_def
        iloc_def exec_write_def insert_provider_def insert_receiver_def insert_food_listing_def
        insert_claim_def fresh_id_def quantity_check_def references_def Let_def)
  show ?thesis
    using listings_filter_correct [OF h, of 100 "''All''"
        "snd (insert_sample_data \<lparr>db_type = Sqlite, conn = None\<rparr> None 100 7 8 empty_db)",
        THEN conjunct1]
    by (simp add: d)
qed

subsection \<open>Seeding\<close>

lemma insert_provider_keeps:
  "providers db \<noteq> [] \<Longrightarrow> providers (snd (insert_provider b n t a c k db)) \<noteq> []"
  by (simp add: insert_provider_def Let_def split: option.splits)

lemma insert_receiver_keeps:
  "providers (snd (insert_receiver b n t c k db)) = providers db"
  by (simp add: insert_receiver_def Let_def split: option.splits)

lemma insert_food_listing_keeps:
  "providers (snd (insert_food_listing b n q d p pt l ft mt db)) = providers db"
  by (simp add: insert_food_listing_def Let_def split: option.splits)

lemma insert_claim_keeps:
  "providers (snd (insert_claim b f r st ts db)) = providers db"
  by (simp add: insert_claim_def Let_def)

lemma exec_write_keeps:
  assumes "\<And>d. providers d \<noteq> [] \<Longrightarrow> providers (snd (stmt d)) \<noteq> []"
    and "providers db \<noteq> []"
  shows "providers (snd (exec_write fault stmt db)) \<noteq> []"
  using assms by (cases fault) (simp_all add: exec_write_def)

lemma exec_all_keeps:
  assumes "\<And>stmt d. stmt \<in> set stmts \<Longrightarrow> providers d \<noteq> [] \<Longrightarrow> providers (snd (stmt d)) \<noteq> []"
    and "providers db \<noteq> []"
  shows "providers (snd (exec_all fault stmts db)) \<noteq> []"
  using assms
proof (induction stmts arbitrary: db)
  case Nil
  then show ?case by simp
next
  case (Cons stmt rest)
  obtain r db' where w: "exec_write fault stmt db = (r, db')" by (cases "exec_write fault stmt db")
  have k: "providers db' \<noteq> []"
    using exec_write_keeps [of stmt db fault] Cons.prems w by simp
  show ?case
  proof (cases r)
    case (Inl e)
    then show ?thesis using w k by simp
  next
    case (Inr u)
    have "providers (snd (exec_all fault rest db')) \<noteq> []"
      using Cons.IH [of db'] Cons.prems(1) k by simp
    then show ?thesis using w Inr by simp
  qed
qed

lemma sample_writes_keep:
  assumes "stmt \<in> set (sample_writes b today now1 now2)" and "providers d \<noteq> []"
  shows "providers (snd (stmt d)) \<noteq> []"
  using assms
  by (auto simp add: sample_writes_def Let_def insert_provider_keeps insert_receiver_keeps
        insert_food_listing_keeps insert_claim_keeps)

lemma sample_writes_cons:
  "\<exists>rest. sample_writes b today now1 now2
     = insert_provider b (Some ''FreshBites Restaurant'') (Some ''Restaurant'')
            (Some ''123 Market Street'') (Some ''Mumbai'') (Some ''+91-9876543210'') # rest
     \<and> set rest \<subseteq> set (sample_writes b today now1 now2)"
  by (auto simp add: sample_writes_def Let_def)

lemma first_insert:
  assumes "providers db = []"
  shows "\<exists>db'. insert_provider b (Some n) t a c k db = (Inr (), db') \<and> providers db' \<noteq> []"
  using assms by (simp add: insert_provider_def Let_def)

lemma seeded_nonempty:
  assumes "providers db = []"
  shows "providers (snd (exec_all None (sample_writes b today now1 now2) db)) \<noteq> []"
proof -
  obtain rest where r: "sample_writes b today now1 now2
     = insert_provider b (Some ''FreshBites Restaurant'') (Some ''Restaurant'')
            (Some ''123 Market Street'') (Some ''Mumbai'') (Some ''+91-9876543210'') # rest"
    "set rest \<subseteq> set (sample_writes b today now1 now2)"
    using sample_writes_cons by blast
  obtain db' where d: "insert_provider b (Some ''FreshBites Restaurant'') (Some ''Restaurant'')
            (Some ''123 Market Street'') (Some ''Mumbai'') (Some ''+91-9876543210'') db = (Inr (), db')"
    "providers db' \<noteq> []"
    using first_insert [OF assms] by blast
  have "providers (snd (exec_all None rest db')) \<noteq> []"
  proof (rule exec_all_keeps)
    fix stmt :: "database \<Rightarrow> unit outcome" and d :: database
    assume "stmt \<in> set rest" "providers d \<noteq> []"
    then show "providers (snd (stmt d)) \<noteq> []" using sample_writes_keep r(2) by blast
  next
    show "providers db' \<noteq> []" by (rule d(2))
  qed
  then show ?thesis unfolding r(1) using d(1) by (simp add: exec_write_def)
qed

lemma seed_present:
  "providers db \<noteq> [] \<Longrightarrow>
     insert_sample_data self fault today now1 now2 db = (Inr ''Sample data already present.'', db)"
  by (simp add: insert_sample_data_def scalar_frame_def iloc_def count_rows_def)

lemma seed_absent:
  "providers db = [] \<Longrightarrow>
     insert_sample_data self fault today now1 now2 db =
       (case exec_all fault (sample_writes (db_type self) today now1 now2) db of
          (Inl e, db') \<Rightarrow> (Inl e, db')
        | (Inr _, db') \<Rightarrow> (Inr ''Sample data inserted.'', db'))"
  by (simp add: insert_sample_data_def scalar_frame_def iloc_def count_rows_def)

lemma snd_seed_absent:
  "providers db = [] \<Longrightarrow>
     snd (insert_sample_data self fault today now1 now2 db)
       = snd (exec_all fault (sample_writes (db_type self) today now1 now2) db)"
  by (simp add: seed_absent split: prod.splits sum.splits)

lemma seed_fault:
  assumes "providers db = []"
  shows "insert_sample_data self (Some e) today now1 now2 db = (Inl e, db)"
proof -
  obtain rest where r: "sample_writes (db_type self) today now1 now2
     = insert_provider (db_type self) (Some ''FreshBites Restaurant'') (Some ''Restaurant'')
            (Some ''123 Market Street'') (Some ''Mumbai'') (Some ''+91-9876543210'') # rest"
    using sample_writes_cons by blast
  show ?thesis unfolding seed_absent [OF assms] r by (simp add: exec_write_def)
qed

lemma seed_once_nonempty:
  "providers (snd (insert_sample_data self None today now1 now2 db)) \<noteq> []"
proof (cases "providers db = []")
  case True
  then show ?thesis by (simp add: snd_seed_absent seeded_nonempty)
next
  case False
  then show ?thesis by (simp add: seed_present)
qed

lemma seed_twice:
  "snd (insert_sample_data self fault t2 n2 m2 (snd (insert_sample_data self fault t1 n1 m1 db)))
     = snd (insert_sample_data self fault t1 n1 m1 db)"
proof (cases fault)
  case None
  then show ?thesis using seed_once_nonempty [of self t1 n1 m1 db] by (simp add: seed_present)
next
  case (Some e)
  show ?thesis
  proof (cases "providers db = []")
    case True
    then show ?thesis using Some by (simp add: seed_fault)
  next
    case False
    then show ?thesis by (simp add: seed_present)
  qed
qed

lemma seed_empty_db:
  "insert_sample_data self None today now1 now2 empty_db =
     (Inr ''Sample data inserted.'',
      \<lparr>providers =
         [\<lparr>p_provider_id = 1, p_name = ''FreshBites Restaurant'', p_type = Some ''Restaurant'',
           p_address = Some ''123 Market Street'', p_city = Some ''Mumbai'',
           p_contact = Some ''+91-9876543210''\<rparr>,
          \<lparr>p_provider_id = 2, p_name = ''Happy Meals'', p_type = Some ''Caterer'',
           p_address = Some ''45 Food Plaza'', p_city = Some ''Delhi'',
           p_contact = Some ''+91-9876501234''\<rparr>],
       receivers =
         [\<lparr>r_receiver_id = 1, r_name = ''Helping Hands NGO'', r_type = Some ''NGO'',
           r_city = Some ''Mumbai'', r_contact = Some ''9988776655''\<rparr>,
          \<lparr>r_receiver_id = 2, r_name = ''Care Kitchen'', r_type = Some ''Community Kitchen'',
           r_city = Some ''Delhi'', r_contact = Some ''8877665544''\<rparr>],
       food_listings =
         [\<lparr>f_food_id = 1, f_food_name = ''Vegetable Curry'', f_quantity = Some 20,
           f_expiry_date = today + 3, f_provider_id = Some 1,
           f_provider_type = Some ''Restaurant'', f_location = Some ''Mumbai'',
           f_food_type = Some ''Vegetarian'', f_meal_type = Some ''Lunch''\<rparr>,
          \<lparr>f_food_id = 2, f_food_name = ''Chicken Biryani'', f_quantity = Some 15,
           f_expiry_date = today + 1, f_provider_id = Some 2,
           f_provider_type = Some ''Caterer'', f_location = Some ''Delhi'',
           f_food_type = Some ''Non-Vegetarian'', f_meal_type = Some ''Dinner''\<rparr>],
       claims =
         [\<lparr>c_claim_id = 1, c_food_id = Some 1, c_receiver_id = Some 1,
           c_status = Some ''Completed'', c_timestamp = Some now1\<rparr>,
          \<lparr>c_claim_id = 2, c_food_id = Some 2, c_receiver_id = Some 2,
           c_status = Some ''Pending'', c_timestamp = Some now2\<rparr>],
       provider_seq = 2, receiver_seq = 2, food_seq = 2, claim_seq = 2\<rparr>)"
  by (cases "db_type self")
     (simp_all add: insert_sample_data_def sample_writes_def empty_db_def scalar_frame_def
        count_rows_def iloc_def exec_write_def insert_provider_def insert_receiver_def
        insert_food_listing_def insert_claim_def fresh_id_def quantity_check_def references_def
        Let_def)

text \<open>
  C1. Seeding twice leaves the database that seeding once leaves, for every database,
  either backend and any dates and clock readings of the two calls. When the driver does
  not fail, the second call writes nothing and returns "Sample data already present.",
  as does every call on a database with a provider. On the database of a new store one
  call inserts the two providers, two receivers, two listings (expiring in three days
  and in one day) and two claims (Completed, Pending).
\<close>

theorem seeding_idempotent:
  "snd (insert_sample_data self fault t2 n2 m2 (snd (insert_sample_data self fault t1 n1 m1 db)))
     = snd (insert_sample_data self fault t1 n1 m1 db)
   \<and> insert_sample_data self None t2 n2 m2 (snd (insert_sample_data self None t1 n1 m1 db))
     = (Inr ''Sample data already present.'', snd (insert_sample_data self None t1 n1 m1 db))
   \<and> (providers db \<noteq> [] \<longrightarrow>
        insert_sample_data self fault t1 n1 m1 db = (Inr ''Sample data already present.'', db))
   \<and> fst (insert_sample_data self None t1 n1 m1 empty_db) = Inr ''Sample data inserted.''
   \<and> map p_name (providers (snd (insert_sample_data self None t1 n1 m1 empty_db)))
     = [''FreshBites Restaurant'', ''Happy Meals'']
   \<and> map r_name (receivers (snd (insert_sample_data self None t1 n1 m1 empty_db)))
     = [''Helping Hands NGO'', ''Care Kitchen'']
   \<and> map (\<lambda>r. (f_food_name r, f_quantity r, f_expiry_date r))
        (food_listings (snd (insert_sample_data self None t1 n1 m1 empty_db)))
     = [(''Vegetable Curry'', Some 20, t1 + 3), (''Chicken Biryani'', Some 15, t1 + 1)]
   \<and> map c_status (claims (snd (insert_sample_data self None t1 n1 m1 empty_db)))
     = [Some ''Completed'', Some ''Pending'']"
proof -
  have 2: "insert_sample_data self None t2 n2 m2 (snd (insert_sample_data self None t1 n1 m1 db))
     = (Inr ''Sample data already present.'', snd (insert_sample_data self None t1 n1 m1 db))"
    using seed_once_nonempty [of self t1 n1 m1 db] by (rule seed_present)
  have 3: "providers db \<noteq> [] \<longrightarrow>
        insert_sample_data self fault t1 n1 m1 db = (Inr ''Sample data already present.'', db)"
    by (simp add: seed_present)
  have 4: "fst (insert_sample_data self None t1 n1 m1 empty_db) = Inr ''Sample data inserted.''"
    by (simp add: seed_empty_db)
  have 5: "map p_name (providers (snd (insert_sample_data self None t1 n1 m1 empty_db)))
     = [''FreshBites Restaurant'', ''Happy Meals'']"
    by (simp add: seed_empty_db)
  have 6: "map r_name (receivers (snd (insert_sample_data self None t1 n1 m1 empty_db)))
     = [''Helping Hands NGO'', ''Care Kitchen'']"
    by (simp add: seed_empty_db)
  have 7: "map (\<lambda>r. (f_food_name r, f_quantity r, f_expiry_date r))
        (food_listings (snd (insert_sample_data self None t1 n1 m1 empty_db)))
     = [(''Vegetable Curry'', Some 20, t1 + 3), (''Chicken Biryani'', Some 15, t1 + 1)]"
    by (simp add: seed_empty_db)
  have 8: "map c_status (claims (snd (insert_sample_data self None t1 n1 m1 empty_db)))
     = [Some ''Completed'', Some ''Pending'']"
    by (simp add: seed_empty_db)
  show ?thesis by (rule conjI seed_twice 2 3 4 5 6 7 8)+
qed

theorem seeding_idempotent_witness:
  "providers (snd (insert_sample_data \<lparr>db_type = Postgres, conn = None\<rparr> None 100 7 8 empty_db)) \<noteq> []
   \<and> insert_sample_data \<lparr>db_type = Postgres, conn = None\<rparr> None 200 9 10
        (snd (insert_sample_data \<lparr>db_type = Postgres, conn = None\<rparr> None 100 7 8 empty_db))
      = (Inr ''Sample data already present.'',
         snd (insert_sample_data \<lparr>db_type = Postgres, conn = None\<rparr> None 100 7 8 empty_db))
   \<and> map c_status (claims (snd (insert_sample_data \<lparr>db_type = Postgres, conn = None\<rparr> None 200 9 10
        (snd (insert_sample_data \<lparr>db_type = Postgres, conn = None\<rparr> None 100 7 8 empty_db)))))
      = [Some ''Completed'', Some ''Pending'']"
proof -
  let ?self = "\<lparr>db_type = Postgres, conn = None\<rparr>"
  let ?db1 = "snd (insert_sample_data ?self None 100 7 8 empty_db)"
  note t = seeding_idempotent [of ?self None 200 9 10 100 7 8 empty_db]
  note u = seeding_idempotent [of ?self None 200 9 10 200 9 10 ?db1]
  have names: "map p_name (providers ?db1) = [''FreshBites Restaurant'', ''Happy Meals'']"
    using t by (elim conjE)
  have h: "providers ?db1 \<noteq> []"
  proof
    assume "providers ?db1 = []"
    with names show False by simp
  qed
  have imp: "providers ?db1 \<noteq> [] \<longrightarrow>
        insert_sample_data ?self None 200 9 10 ?db1 = (Inr ''Sample data already present.'', ?db1)"
    using u by (elim conjE)
  have again: "insert_sample_data ?self None 200 9 10 ?db1 = (Inr ''Sample data already present.'', ?db1)"
    using imp h by (rule mp)
  have st: "map c_status (claims ?db1) = [Some ''Completed'', Some ''Pending'']"
    using t by (elim conjE)
  show ?thesis using h again st by simp
qed

subsection \<open>The metric "Claims Completed"\<close>

text \<open>
  The two counts the metric is computed from are the number of claims whose status is
  Completed and the number of all claims, and without claims the text is "0%". The
  rounding itself is done in binary floating point and stays the term \<open>Rounded_percent\<close>.
\<close>

lemma claims_completed_metric:
  "\<exists>m. overview today db = Inr m
       \<and> claims_completed m =
           (if claims db = [] then Literal ''0%''
            else Rounded_percent
                   (int (length (filter (\<lambda>c. c_status c = Some ''Completed'') (claims db))))
                   (int (length (claims db))))"
  by (simp add: overview_defined pct_completed_def int_of_scalar_def count_rows_def)

end
